theory Spec2Isabelle
  imports Main
begin

section \<open>JavaScript values\<close>

text \<open>
  An optional numeric field of a JSON object is an \<open>int option\<close>: \<open>None\<close> when the field
  is missing (\<open>undefined\<close>) or \<open>null\<close>. \<open>x || d\<close> yields \<open>d\<close> when \<open>x\<close> is falsy, that is
  missing, \<open>null\<close> or \<open>0\<close>; \<open>x ?? d\<close> yields \<open>d\<close> only when \<open>x\<close> is missing or \<open>null\<close>.
\<close>

definition js_or :: "int option \<Rightarrow> int \<Rightarrow> int" where
  "js_or x d = (case x of None \<Rightarrow> d | Some n \<Rightarrow> if n = 0 then d else n)"

definition js_nullish :: "int option \<Rightarrow> int \<Rightarrow> int" where
  "js_nullish x d = (case x of None \<Rightarrow> d | Some n \<Rightarrow> n)"

section \<open>Alert events\<close>

text \<open>
  A bounding box is the array \<open>[x1, y1, x2, y2, confidence]\<close>; no function modelled here
  looks inside it.
\<close>

type_synonym box = "int list"

record detections =
  objects :: "string list option"
  boxes :: "box list option"

text \<open>
  The fields of an alert that the client reads. \<open>msg_type\<close> is the JSON field \<open>type\<close>.
  \<open>timestamp\<close> is the value of \<open>new Date(alert.timestamp).getTime()\<close> in milliseconds,
  \<open>None\<close> when that is an invalid date (the field is missing or cannot be parsed).
\<close>

record alert =
  msg_type :: "string option"
  alert_id :: "int option"
  timestamp :: "int option"
  title :: "string option"
  severity :: "string option"
  person_count :: "int option"
  new_person_count :: "int option"
  detections :: "detections option"

section \<open>Dates\<close>

text \<open>
  A \<open>Date\<close> holds a time value: integer milliseconds since the epoch, UTC. Its local
  fields depend on the time zone, given here by its two offset functions:
  \<open>offsetUTC t\<close> is the offset in force at the UTC instant \<open>t\<close>, and \<open>offsetLocal w\<close> the
  offset by which the wall-clock reading \<open>w\<close> is read back (at a repeated or skipped
  reading, the offset before the change). Time values out of the range of \<open>Date\<close> are
  not modelled.
\<close>

record zone =
  offsetUTC :: "int \<Rightarrow> int"
  offsetLocal :: "int \<Rightarrow> int"

definition hourMs :: int where
  "hourMs = 3600000"

definition msPerDay :: int where
  "msPerDay = 86400000"

definition localTime :: "zone \<Rightarrow> int \<Rightarrow> int" where
  "localTime z t = t + offsetUTC z t"

definition toUTC :: "zone \<Rightarrow> int \<Rightarrow> int" where
  "toUTC z w = w - offsetLocal z w"

definition dayOf :: "int \<Rightarrow> int" where
  "dayOf t = t div msPerDay"

definition hourFromTime :: "int \<Rightarrow> int" where
  "hourFromTime t = (t div hourMs) mod 24"

definition minFromTime :: "int \<Rightarrow> int" where
  "minFromTime t = (t div 60000) mod 60"

definition secFromTime :: "int \<Rightarrow> int" where
  "secFromTime t = (t div 1000) mod 60"

definition msFromTime :: "int \<Rightarrow> int" where
  "msFromTime t = t mod 1000"

definition makeTime :: "int \<Rightarrow> int \<Rightarrow> int \<Rightarrow> int \<Rightarrow> int" where
  "makeTime h m s ms = h * hourMs + m * 60000 + s * 1000 + ms"

definition makeDate :: "int \<Rightarrow> int \<Rightarrow> int" where
  "makeDate day time = day * msPerDay + time"

definition getHours :: "zone \<Rightarrow> int \<Rightarrow> int" where
  "getHours z t = hourFromTime (localTime z t)"

text \<open>
  \<open>d.setHours(h, m, s, ms)\<close> and \<open>d.setHours(h)\<close>: the wall-clock date of \<open>d\<close> is kept,
  the time of day is replaced (with one argument the minutes, seconds and milliseconds
  stay), and the reading is taken back to UTC. An hour below 0 or above 23 carries
  into the date.
\<close>

definition setHours4 :: "zone \<Rightarrow> int \<Rightarrow> int \<Rightarrow> int \<Rightarrow> int \<Rightarrow> int \<Rightarrow> int" where
  "setHours4 z t h m s ms = toUTC z (makeDate (dayOf (localTime z t)) (makeTime h m s ms))"

definition setHours1 :: "zone \<Rightarrow> int \<Rightarrow> int \<Rightarrow> int" where
  "setHours1 z t h =
     (let w = localTime z t
      in toUTC z (makeDate (dayOf w)
                    (makeTime h (minFromTime w) (secFromTime w) (msFromTime w))))"

text \<open>A zone whose offset never changes, and New York around the end of daylight saving
  time on 2026-11-01 (06:00 UTC): four hours behind UTC before, five after.\<close>

definition fixedZone :: "int \<Rightarrow> zone" where
  "fixedZone tz = \<lparr>offsetUTC = (\<lambda>t. tz), offsetLocal = (\<lambda>w. tz)\<rparr>"

definition newYork :: zone where
  "newYork =
     \<lparr>offsetUTC = (\<lambda>t. if t < 1793512800000 then - 4 * hourMs else - 5 * hourMs),
      offsetLocal = (\<lambda>w. if w < 1793512800000 - 4 * hourMs then - 4 * hourMs else - 5 * hourMs)\<rparr>"

text \<open>
  The offset of the zone stays \<open>tz\<close> from six hours before \<open>now\<close> to one hour after it, at
  the instants and at the wall-clock readings.
\<close>

definition steadyZone :: "zone \<Rightarrow> int \<Rightarrow> int \<Rightarrow> bool" where
  "steadyZone z tz now =
     ((\<forall>t. now - 6 * hourMs \<le> t \<and> t \<le> now + hourMs \<longrightarrow> offsetUTC z t = tz) \<and>
      (\<forall>w. now + tz - 6 * hourMs \<le> w \<and> w \<le> now + tz + hourMs \<longrightarrow> offsetLocal z w = tz))"

section \<open>Trend data: createHourlyTrend\<close>

text \<open>
  The helper of the dashboard variant that builds the hourly chart from the alert list.
  \<open>now\<close> is the time value of \<open>new Date()\<close>.
\<close>

record trend_point =
  tp_time :: int
  tp_alerts :: nat
  tp_count :: nat

text \<open>
  \<open>hourStart\<close> of loop index \<open>i\<close>: a copy of \<open>now\<close> after
  \<open>setHours(now.getHours() - i, 0, 0, 0)\<close>; \<open>hourEnd\<close>: a copy of \<open>hourStart\<close> after
  \<open>setHours(hourStart.getHours() + 1)\<close>.
\<close>

definition hourStart :: "zone \<Rightarrow> int \<Rightarrow> nat \<Rightarrow> int" where
  "hourStart z now i = setHours4 z now (getHours z now - int i) 0 0 0"

definition hourEnd :: "zone \<Rightarrow> int \<Rightarrow> nat \<Rightarrow> int" where
  "hourEnd z now i =
     (let hs = hourStart z now i in setHours1 z hs (getHours z hs + 1))"

text \<open>
  The filter predicate \<open>alertTime >= hourStart && alertTime < hourEnd\<close>; both comparisons
  are false for an invalid date.
\<close>

definition inHour :: "zone \<Rightarrow> int \<Rightarrow> nat \<Rightarrow> alert \<Rightarrow> bool" where
  "inHour z now i a =
     (case timestamp a of
        None \<Rightarrow> False
      | Some t \<Rightarrow> hourStart z now i \<le> t \<and> t < hourEnd z now i)"

definition trendBucket :: "zone \<Rightarrow> int \<Rightarrow> alert list \<Rightarrow> nat \<Rightarrow> trend_point" where
  "trendBucket z now as i =
     (let alertsInHour = filter (inHour z now i) as
      in \<lparr>tp_time = hourStart z now i,
          tp_alerts = length alertsInHour,
          tp_count = length alertsInHour\<rparr>)"

text \<open>The loop \<open>for (let i = hours - 1; i >= 0; i--)\<close> pushes one bucket per index.\<close>

definition createHourlyTrend :: "zone \<Rightarrow> int \<Rightarrow> alert list \<Rightarrow> nat \<Rightarrow> trend_point list" where
  "createHourlyTrend z now as hours = map (trendBucket z now as) (rev [0..<hours])"

text \<open>An alert of which only the timestamp is set.\<close>

definition alertAt :: "int option \<Rightarrow> alert" where
  "alertAt t =
     \<lparr>msg_type = None, alert_id = None, timestamp = t, title = None, severity = None,
      person_count = None, new_person_count = None, detections = None\<rparr>"

text \<open>The property side of a bucket: the timestamp parsed and lies in \<open>[lo, hi)\<close>.\<close>

definition timestampIn :: "int \<Rightarrow> int \<Rightarrow> alert \<Rightarrow> bool" where
  "timestampIn lo hi a = (case timestamp a of None \<Rightarrow> False | Some t \<Rightarrow> lo \<le> t \<and> t < hi)"

text \<open>
  The start of the wall-clock hour that holds \<open>now\<close>, where the offset is \<open>tz\<close>.
\<close>

definition startOfHour :: "int \<Rightarrow> int \<Rightarrow> int" where
  "startOfHour tz t = t - ((t + tz) mod hourMs)"

section \<open>Notifications\<close>

text \<open>
  \<open>showError\<close>, \<open>showWarning\<close>, \<open>showInfo\<close> and \<open>showSuccess\<close> append a toast to the
  active list. A message is kept as a constructor for each text the client builds; the
  automatic removal after the duration is not modelled.
\<close>

datatype toast_type = ToastError | ToastWarning | ToastInfo | ToastSuccess

datatype channel_error = ParseFailed | ConnectionLost | SetupFailed

datatype toast_text =
    VideoUnavailable
  | AnalyticsUnavailable
  | AlertsUnavailable
  | DetectionActive
  | DetectionNotRunning
  | DetectionStatusUnknown
  | StreamConnected
  | AlertNotice "string option"
  | ChannelNotice channel_error
  | Titled string
  | CriticalDefault
  | PersonsDefault int int
  | NewPersonDefault int int
  | Reconnecting nat
  | RetriesExhausted
  | NetworkRecovering
  | MediaRecovering
  | FatalStreamError
  | Reconnected
  | PlaybackError
  | HlsUnsupported

record toast =
  toast_kind :: toast_type
  toast_message :: toast_text
  toast_duration :: int

definition mkToast :: "toast_type \<Rightarrow> toast_text \<Rightarrow> int \<Rightarrow> toast" where
  "mkToast k m d = \<lparr>toast_kind = k, toast_message = m, toast_duration = d\<rparr>"

text \<open>\<open>detectionData.title || fallback\<close>: a missing or empty title gives the fallback.\<close>

definition titleOr :: "string option \<Rightarrow> toast_text \<Rightarrow> toast_text" where
  "titleOr t d = (case t of None \<Rightarrow> d | Some s \<Rightarrow> if s = [] then d else Titled s)"

section \<open>Detection context\<close>

record detection =
  det_id :: int
  det_timestamp :: int
  personCount :: int
  newPersonCount :: int
  objectTypes :: "string list"
  det_boxes :: "box list"
  det_severity :: string
  isActive :: bool

text \<open>
  The provider's state, with the toasts it has shown and the pending \<open>setTimeout\<close>
  callbacks as pairs (due time, id of the snapshot the callback closes over).
\<close>

record det_state =
  currentDetection :: "detection option"
  detectionHistory :: "detection list"
  isDetecting :: bool
  detectionCount :: int
  toasts :: "toast list"
  timers :: "(int \<times> int) list"

definition initialDetection :: det_state where
  "initialDetection =
     \<lparr>currentDetection = None, detectionHistory = [], isDetecting = False,
      detectionCount = 0, toasts = [], timers = []\<rparr>"

text \<open>
  The provider that keeps the active count and the new arrivals apart:
  \<open>activePersonCount = detectionData.person_count || 0\<close>,
  \<open>newArrivals = detectionData.new_person_count || 0\<close>, and the snapshot built from them.
\<close>

definition activePersonCount :: "alert \<Rightarrow> int" where
  "activePersonCount a = js_or (person_count a) 0"

definition newArrivals :: "alert \<Rightarrow> int" where
  "newArrivals a = js_or (new_person_count a) 0"

definition newDetection :: "int \<Rightarrow> alert \<Rightarrow> detection" where
  "newDetection now a =
     \<lparr>det_id = now,
      det_timestamp = now,
      personCount = activePersonCount a,
      newPersonCount = newArrivals a,
      objectTypes =
        (case detections a of
           None \<Rightarrow> [''person'']
         | Some d \<Rightarrow> (case objects d of None \<Rightarrow> [''person''] | Some os \<Rightarrow> os)),
      det_boxes =
        (case detections a of
           None \<Rightarrow> []
         | Some d \<Rightarrow> (case boxes d of None \<Rightarrow> [] | Some bs \<Rightarrow> bs)),
      det_severity =
        (case severity a of None \<Rightarrow> ''medium'' | Some s \<Rightarrow> if s = [] then ''medium'' else s),
      isActive = True\<rparr>"

definition detectionNotice :: "alert \<Rightarrow> detection \<Rightarrow> toast list" where
  "detectionNotice a d =
     (let hasWeapon = (''weapon'' \<in> set (objectTypes d));
          activeCount = personCount d;
          newCount = newPersonCount d
      in if hasWeapon \<or> severity a = Some ''critical''
         then [mkToast ToastError (titleOr (title a) CriticalDefault) 5000]
         else if activeCount > 2 \<or> severity a = Some ''high''
         then [mkToast ToastWarning (titleOr (title a) (PersonsDefault newCount activeCount)) 4000]
         else if newCount > 0
         then [mkToast ToastInfo (titleOr (title a) (NewPersonDefault newCount activeCount)) 3000]
         else [])"

text \<open>
  \<open>updateDetection\<close> at clock reading \<open>now\<close> (\<open>Date.now()\<close>); a falsy argument returns at
  once.
\<close>

definition updateDetection :: "int \<Rightarrow> alert option \<Rightarrow> det_state \<Rightarrow> det_state" where
  "updateDetection now detectionData s =
     (case detectionData of
        None \<Rightarrow> s
      | Some a \<Rightarrow>
          (let d = newDetection now a
           in s\<lparr>currentDetection := Some d,
                detectionCount := detectionCount s + newArrivals a,
                detectionHistory := d # take 49 (detectionHistory s),
                toasts := toasts s @ detectionNotice a d,
                timers := timers s @ [(now + 10000, det_id d)]\<rparr>))"

text \<open>The timeout callback \<open>prev => prev?.id === newDetection.id ? null : prev\<close>.\<close>

definition clearIfCurrent :: "int \<Rightarrow> det_state \<Rightarrow> det_state" where
  "clearIfCurrent i s =
     s\<lparr>currentDetection :=
         (case currentDetection s of
            None \<Rightarrow> None
          | Some d \<Rightarrow> if det_id d = i then None else Some d)\<rparr>"

text \<open>A pending timer fires: it leaves the pending list and runs its callback.\<close>

definition fireTimer :: "int \<times> int \<Rightarrow> det_state \<Rightarrow> det_state" where
  "fireTimer tm s =
     (if tm \<in> set (timers s)
      then clearIfCurrent (snd tm) (s\<lparr>timers := remove1 tm (timers s)\<rparr>)
      else s)"

definition clearDetection :: "det_state \<Rightarrow> det_state" where
  "clearDetection s = s\<lparr>currentDetection := None\<rparr>"

definition setDetectionStatus :: "bool \<Rightarrow> det_state \<Rightarrow> det_state" where
  "setDetectionStatus st s = s\<lparr>isDetecting := st\<rparr>"

datatype det_event = Update int "alert option" | Fire "int \<times> int"

fun det_step :: "det_state \<Rightarrow> det_event \<Rightarrow> det_state" where
  "det_step s (Update now a) = updateDetection now a s"
| "det_step s (Fire tm) = fireTimer tm s"

definition det_run :: "det_state \<Rightarrow> det_event list \<Rightarrow> det_state" where
  "det_run s es = foldl det_step s es"

section \<open>Dashboard\<close>

text \<open>
  A query either rejects (\<open>Inl\<close>) or resolves with its \<open>data\<close> (\<open>Inr\<close>); a response
  without \<open>data\<close> is the record with every field missing, as \<open>sInfo?.data || {}\<close> makes it.
\<close>

datatype api_error = NetworkError | ServiceUnavailable | ServerError | RequestFailed

record stream_data =
  url :: "string option"
  hls :: "string option"
  status :: "string option"
  stream_error :: "string option"

record stats_data =
  sd_total :: "int option"
  sd_critical :: "int option"
  sd_attack :: "int option"
  sd_high :: "int option"
  sd_danger :: "int option"
  sd_blackout :: "int option"
  sd_trend :: "trend_point list option"

record stats =
  st_total :: int
  st_critical :: int
  st_high :: int
  st_blackout :: int

record dashboard =
  streamUrl :: string
  stats :: stats
  alerts :: "alert list"
  trend :: "trend_point list"
  loading :: bool
  detectionStatus :: bool
  ctx :: det_state

definition initialDashboard :: dashboard where
  "initialDashboard =
     \<lparr>streamUrl = [],
      stats = \<lparr>st_total = 0, st_critical = 0, st_high = 0, st_blackout = 0\<rparr>,
      alerts = [], trend = [], loading = True, detectionStatus = False,
      ctx = initialDetection\<rparr>"

definition showToast :: "toast_type \<Rightarrow> toast_text \<Rightarrow> int \<Rightarrow> dashboard \<Rightarrow> dashboard" where
  "showToast k m d s = s\<lparr>ctx := (ctx s)\<lparr>toasts := toasts (ctx s) @ [mkToast k m d]\<rparr>\<rparr>"

text \<open>A string is truthy when present and not empty.\<close>

definition truthyStr :: "string option \<Rightarrow> bool" where
  "truthyStr x = (case x of None \<Rightarrow> False | Some s \<Rightarrow> s \<noteq> [])"

definition strOr :: "string option \<Rightarrow> string option \<Rightarrow> string option" where
  "strOr x y = (if truthyStr x then x else y)"

text \<open>
  The sample alerts of \<open>Dashboard.jsx\<close>, used when the loaded history is empty. The fields
  that are only displayed (reason, location, lat, lng, details) are left out of the record.
\<close>

definition sampleAlerts :: "int \<Rightarrow> alert list" where
  "sampleAlerts now =
     [\<lparr>msg_type = None, alert_id = Some 1, timestamp = Some (now - 5 * 60 * 1000),
       title = Some ''Motion Detected - Restricted Area'', severity = Some ''critical'',
       person_count = None, new_person_count = None,
       detections = Some \<lparr>objects = Some [''person'', ''person''], boxes = None\<rparr>\<rparr>,
      \<lparr>msg_type = None, alert_id = Some 2, timestamp = Some (now - 15 * 60 * 1000),
       title = Some ''Vehicle Speeding Alert'', severity = Some ''high'',
       person_count = None, new_person_count = None,
       detections = Some \<lparr>objects = None, boxes = None\<rparr>\<rparr>,
      \<lparr>msg_type = None, alert_id = Some 3, timestamp = Some (now - 30 * 60 * 1000),
       title = Some ''Perimeter Breach'', severity = Some ''medium'',
       person_count = None, new_person_count = None,
       detections = None\<rparr>]"

text \<open>The four guarded queries of the bootstrap, each with its own \<open>catch\<close>.\<close>

definition loadStream :: "api_error + stream_data \<Rightarrow> dashboard \<Rightarrow> stream_data \<times> dashboard" where
  "loadStream r s =
     (case r of
        Inr d \<Rightarrow> (d, s)
      | Inl e \<Rightarrow>
          (\<lparr>url = Some [], hls = None, status = Some ''unavailable'', stream_error = None\<rparr>,
           showToast ToastWarning VideoUnavailable 6000 s))"

definition loadStats :: "api_error + stats_data \<Rightarrow> dashboard \<Rightarrow> stats_data \<times> dashboard" where
  "loadStats r s =
     (case r of
        Inr d \<Rightarrow> (d, s)
      | Inl e \<Rightarrow>
          (\<lparr>sd_total = Some 0, sd_critical = Some 0, sd_attack = None, sd_high = Some 0,
            sd_danger = None, sd_blackout = Some 0, sd_trend = Some []\<rparr>,
           showToast ToastError AnalyticsUnavailable 4000 s))"



definition loadAlerts :: "api_error + alert list \<Rightarrow> dashboard \<Rightarrow> alert list \<times> dashboard" where
  "loadAlerts r s =
     (case r of
        Inr d \<Rightarrow> (d, s)
      | Inl e \<Rightarrow> ([], showToast ToastError AlertsUnavailable 4000 s))"

definition loadDetectionStatus :: "api_error + bool \<Rightarrow> dashboard \<Rightarrow> dashboard" where
  "loadDetectionStatus r s =
     (case r of
        Inr running \<Rightarrow>
          (let s1 = s\<lparr>detectionStatus := running, ctx := setDetectionStatus running (ctx s)\<rparr>
           in if running then showToast ToastSuccess DetectionActive 3000 s1
              else showToast ToastWarning DetectionNotRunning 5000 s1)
      | Inl e \<Rightarrow> showToast ToastWarning DetectionStatusUnknown 4000 s)"

definition processStream :: "stream_data \<Rightarrow> dashboard \<Rightarrow> dashboard" where
  "processStream d s =
     (if status d = Some ''active'' \<and> (truthyStr (url d) \<or> truthyStr (hls d))
      then showToast ToastInfo StreamConnected 3000
             (s\<lparr>streamUrl := (case strOr (url d) (hls d) of None \<Rightarrow> [] | Some u \<Rightarrow> u)\<rparr>)
      else s\<lparr>streamUrl := []\<rparr>)"

definition processStats :: "stats_data \<Rightarrow> stats" where
  "processStats d =
     \<lparr>st_total = js_nullish (sd_total d) 42,
      st_critical = js_nullish (sd_critical d) (js_nullish (sd_attack d) 3),
      st_high = js_nullish (sd_high d) (js_nullish (sd_danger d) 8),
      st_blackout = js_nullish (sd_blackout d) 1\<rparr>"

text \<open>
  The bootstrap of \<open>Dashboard.jsx\<close> at clock reading \<open>now\<close>, from the outcomes of the
  stream, summary, history and detection-status queries. With every rejection caught by
  its own \<open>catch\<close> and the responses typed as above, nothing reaches the outer \<open>catch\<close>.
\<close>

definition bootstrap ::
  "int \<Rightarrow> api_error + stream_data \<Rightarrow> api_error + stats_data \<Rightarrow> api_error + alert list \<Rightarrow>
   api_error + bool \<Rightarrow> dashboard \<Rightarrow> dashboard" where
  "bootstrap now rStream rStats rAlerts rDetection s0 =
     (let (streamData, s1) = loadStream rStream s0;
          (statsData, s2) = loadStats rStats s1;
          (alertsData, s3) = loadAlerts rAlerts s2;
          s4 = loadDetectionStatus rDetection s3;
          s5 = processStream streamData s4;
          s6 = s5\<lparr>stats := processStats statsData\<rparr>;
          s7 = s6\<lparr>trend := (case sd_trend statsData of None \<Rightarrow> [] | Some t \<Rightarrow> t)\<rparr>;
          s8 = s7\<lparr>alerts := (if length alertsData > 0 then alertsData else sampleAlerts now)\<rparr>
      in s8\<lparr>loading := False\<rparr>)"

text \<open>The two callbacks handed to \<open>subscribeAlerts\<close>.\<close>

definition alertNotice :: "alert \<Rightarrow> dashboard \<Rightarrow> dashboard" where
  "alertNotice msg s =
     (if severity msg = Some ''critical'' then showToast ToastError (AlertNotice (title msg)) 5000 s
      else if severity msg = Some ''high'' then showToast ToastWarning (AlertNotice (title msg)) 4000 s
      else showToast ToastInfo (AlertNotice (title msg)) 3000 s)"

definition onMessage :: "int \<Rightarrow> alert \<Rightarrow> dashboard \<Rightarrow> dashboard" where
  "onMessage now msg s =
     (let s1 = s\<lparr>alerts := take 50 (msg # alerts s)\<rparr>;
          s2 = s1\<lparr>ctx := updateDetection now (Some msg) (ctx s1)\<rparr>;
          p = stats s2;
          s3 = s2\<lparr>stats := p\<lparr>st_total := js_or (Some (st_total p)) 0 + 1,
                                st_critical := st_critical p + (if severity msg = Some ''critical'' then 1 else 0),
                                st_high := st_high p + (if severity msg = Some ''high'' then 1 else 0)\<rparr>\<rparr>
      in alertNotice msg s3)"

definition onError :: "channel_error \<Rightarrow> dashboard \<Rightarrow> dashboard" where
  "onError e s = showToast ToastWarning (ChannelNotice e) 5000 s"

section \<open>Alert channel: subscribeAlerts\<close>

text \<open>
  The data of a frame after \<open>JSON.parse\<close>: text that does not parse; \<open>null\<close>, on which
  reading \<open>data.type\<close> throws inside the same \<open>try\<close>; or an object, read through its fields.
\<close>

datatype frame = Malformed | JsonNull | JsonObject alert

definition isKeepalive :: "frame \<Rightarrow> bool" where
  "isKeepalive f = (case f of JsonObject a \<Rightarrow> msg_type a = Some ''keepalive'' | _ \<Rightarrow> False)"

text \<open>\<open>es.onmessage\<close> with the callbacks the Dashboard passes.\<close>

definition handleFrame :: "int \<Rightarrow> frame \<Rightarrow> dashboard \<Rightarrow> dashboard" where
  "handleFrame now f s =
     (case f of
        Malformed \<Rightarrow> onError ParseFailed s
      | JsonNull \<Rightarrow> onError ParseFailed s
      | JsonObject data \<Rightarrow>
          if msg_type data = Some ''keepalive'' then s else onMessage now data s)"

definition handleFrames :: "dashboard \<Rightarrow> (int \<times> frame) list \<Rightarrow> dashboard" where
  "handleFrames s fs = foldl (\<lambda>st (now, f). handleFrame now f st) s fs"

section \<open>Video player\<close>
























text \<open>What a trace event adds to the running detection total.\<close>

fun eventArrivals :: "det_event \<Rightarrow> int" where
  "eventArrivals (Update now (Some a)) = newArrivals a"
| "eventArrivals (Update now None) = 0"
| "eventArrivals (Fire tm) = 0"

text \<open>An event that reports one person in its object list and carries no count field.\<close>

definition personSeen :: alert where
  "personSeen = (alertAt (Some 1000))\<lparr>detections := Some \<lparr>objects = Some [''person''], boxes = None\<rparr>\<rparr>"

text \<open>The inputs of the scenarios: a summary, a keepalive frame and a player.\<close>

definition summary5100 :: stats_data where
  "summary5100 =
     \<lparr>sd_total = Some 5, sd_critical = Some 1, sd_attack = None, sd_high = Some 0,
      sd_danger = None, sd_blackout = Some 0, sd_trend = None\<rparr>"

definition keepaliveMsg :: alert where
  "keepaliveMsg = (alertAt None)\<lparr>msg_type := Some ''keepalive''\<rparr>"






section \<open>Properties of the trend data\<close>

lemma rev_upt_6: "rev [0..<6] = [5, 4, 3, 2, 1, 0::nat]"
  by (simp add: upt_rec)

lemma createHourlyTrend_length: "length (createHourlyTrend z now as h) = h"
  by (simp add: createHourlyTrend_def)

lemma createHourlyTrend_nth:
  "k < h \<Longrightarrow> createHourlyTrend z now as h ! k = trendBucket z now as (h - 1 - k)"
  by (simp add: createHourlyTrend_def rev_nth)

lemma inHour_timestampIn:
  "inHour z now i = timestampIn (hourStart z now i) (hourEnd z now i)"
  by (rule ext) (simp add: inHour_def timestampIn_def split: option.splits)

lemma trendBucket_count:
  "tp_count (trendBucket z now as i) =
     length (filter (timestampIn (hourStart z now i) (hourEnd z now i)) as)"
  by (simp add: trendBucket_def Let_def inHour_timestampIn)

lemma trendBucket_time: "tp_time (trendBucket z now as i) = hourStart z now i"
  by (simp add: trendBucket_def Let_def)

lemma hour_floor:
  "makeDate (dayOf w) (makeTime (hourFromTime w + d) 0 0 0) = w - w mod hourMs + d * hourMs"
proof -
  define q where "q = w div 3600000"
  have day: "w div 86400000 = q div 24"
    unfolding q_def using zdiv_zmult2_eq[of 24 w 3600000] by simp
  define a where "a = q div 24"
  define b where "b = q mod 24"
  have "q = a * 24 + b" unfolding a_def b_def by simp
  then have "a * 86400000 + b * 3600000 = q * 3600000"
    by simp
  then have "(q div 24) * 86400000 + (q mod 24) * 3600000 = q * 3600000"
    unfolding a_def b_def .
  moreover have "q * 3600000 = w - w mod 3600000"
    unfolding q_def by (simp add: minus_mod_eq_div_mult)
  ultimately show ?thesis
    by (simp add: makeDate_def dayOf_def makeTime_def hourFromTime_def hourMs_def msPerDay_def
        day q_def[symmetric] algebra_simps)
qed

lemma on_the_hour:
  assumes "w mod hourMs = 0"
  shows "minFromTime w = 0" "secFromTime w = 0" "msFromTime w = 0"
proof -
  from assms have "3600000 dvd w"
    by (simp add: hourMs_def mod_eq_0_iff_dvd)
  then obtain k where k: "w = 3600000 * k"
    by (elim dvdE)
  show "minFromTime w = 0" by (simp add: minFromTime_def k)
  show "secFromTime w = 0" by (simp add: secFromTime_def k)
  show "msFromTime w = 0" by (simp add: msFromTime_def k)
qed

lemma steady_now: "steadyZone z tz now \<Longrightarrow> localTime z now = now + tz"
  by (simp add: steadyZone_def localTime_def hourMs_def)

lemma startOfHour_bounds:
  "startOfHour tz now \<le> now" "now < startOfHour tz now + hourMs"
  "(startOfHour tz now + tz) mod hourMs = 0"
proof -
  show "startOfHour tz now \<le> now" "now < startOfHour tz now + hourMs"
    by (simp_all add: startOfHour_def hourMs_def)
  have "startOfHour tz now + tz = (now + tz) - (now + tz) mod hourMs"
    by (simp add: startOfHour_def)
  then show "(startOfHour tz now + tz) mod hourMs = 0"
    by (simp add: minus_mod_eq_div_mult)
qed

lemma steady_hourStart:
  assumes st: "steadyZone z tz now" and i: "i < 6"
  shows "hourStart z now i = startOfHour tz now - int i * hourMs"
proof -
  have loc: "localTime z now = now + tz" using st by (rule steady_now)
  define L where "L = (now + tz) - (now + tz) mod hourMs - int i * hourMs"
  have r: "0 \<le> (now + tz) mod hourMs" "(now + tz) mod hourMs < hourMs"
    by (simp_all add: hourMs_def)
  have "int i \<le> 5" using i by simp
  then have ih: "int i * hourMs \<le> 5 * hourMs" by (simp add: hourMs_def)
  have range: "now + tz - 6 * hourMs \<le> L" "L \<le> now + tz + hourMs"
    using r ih unfolding L_def by (simp_all add: hourMs_def)
  have off: "offsetLocal z L = tz"
    using st range by (simp add: steadyZone_def)
  have "hourStart z now i = toUTC z (makeDate (dayOf (now + tz)) (makeTime (hourFromTime (now + tz) + (- int i)) 0 0 0))"
    by (simp add: hourStart_def setHours4_def getHours_def loc)
  also have "\<dots> = toUTC z L"
    unfolding hour_floor L_def by simp
  also have "\<dots> = L - tz" by (simp add: toUTC_def off)
  finally show ?thesis by (simp add: L_def startOfHour_def)
qed

lemma steady_hourEnd:
  assumes st: "steadyZone z tz now" and i: "i < 6"
  shows "hourEnd z now i = startOfHour tz now - int i * hourMs + hourMs"
proof -
  define hs where "hs = startOfHour tz now - int i * hourMs"
  have hs: "hourStart z now i = hs" unfolding hs_def using st i by (rule steady_hourStart)
  have b: "startOfHour tz now \<le> now" "now < startOfHour tz now + hourMs"
    by (rule startOfHour_bounds)+
  have "int i \<le> 5" using i by simp
  then have ih: "0 \<le> int i * hourMs" "int i * hourMs \<le> 5 * hourMs" by (simp_all add: hourMs_def)
  have hsr: "now - 6 * hourMs \<le> hs" "hs \<le> now + hourMs"
    using b ih unfolding hs_def by (simp_all add: hourMs_def)
  have loc: "localTime z hs = hs + tz"
    using st hsr by (simp add: steadyZone_def localTime_def)
  have eq: "(hs + tz) = (startOfHour tz now + tz) - int i * hourMs" by (simp add: hs_def)
  have d1: "hourMs dvd (startOfHour tz now + tz)"
    using startOfHour_bounds(3)[where tz = tz and now = now] by (simp add: mod_eq_0_iff_dvd)
  have "hourMs dvd ((startOfHour tz now + tz) - int i * hourMs)"
    by (rule dvd_diff) (rule d1, simp)
  then have "hourMs dvd (hs + tz)"
    unfolding eq .
  then have m: "(hs + tz) mod hourMs = 0"
    by (simp add: mod_eq_0_iff_dvd)
  have range: "now + tz - 6 * hourMs \<le> hs + tz + hourMs" "hs + tz + hourMs \<le> now + tz + hourMs"
    using hsr b ih unfolding hs_def by (simp_all add: hourMs_def)
  have off: "offsetLocal z (hs + tz + hourMs) = tz"
    using st range by (simp add: steadyZone_def)
  have "hourEnd z now i = toUTC z (makeDate (dayOf (hs + tz)) (makeTime (hourFromTime (hs + tz) + 1) 0 0 0))"
    by (simp add: hourEnd_def hs setHours1_def Let_def getHours_def loc on_the_hour[OF m])
  also have "\<dots> = toUTC z (hs + tz + hourMs)"
    unfolding hour_floor using m by simp
  also have "\<dots> = hs + hourMs" by (simp add: toUTC_def off)
  finally show ?thesis by (simp add: hs_def)
qed

lemma steady_inHour:
  "steadyZone z tz now \<Longrightarrow> i < 6 \<Longrightarrow>
   inHour z now i =
     timestampIn (startOfHour tz now - int i * hourMs) (startOfHour tz now - int i * hourMs + hourMs)"
  by (simp add: inHour_timestampIn steady_hourStart steady_hourEnd)

lemma sum_counts_upt:
  "sum_list (map tp_count (createHourlyTrend z now as h)) =
     (\<Sum>i<h. length (filter (inHour z now i) as))"
proof -
  have "sum_list (map tp_count (createHourlyTrend z now as h)) =
        sum_list (map (\<lambda>i. length (filter (inHour z now i) as)) (rev [0..<h]))"
    by (simp add: createHourlyTrend_def trendBucket_def Let_def comp_def)
  also have "\<dots> = sum_list (map (\<lambda>i. length (filter (inHour z now i) as)) [0..<h])"
    by (simp add: rev_map[symmetric])
  also have "\<dots> = (\<Sum>i<h. length (filter (inHour z now i) as))"
    by (simp add: interv_sum_list_conv_sum_set_nat atLeast0LessThan)
  finally show ?thesis .
qed

lemma one_clock_hour:
  "(\<Sum>i<h. (if timestampIn (S - int i * hourMs) (S - int i * hourMs + hourMs) a then 1 else 0 :: nat)) =
     (if timestampIn (S + hourMs - int h * hourMs) (S + hourMs) a then 1 else 0)"
proof (induction h)
  case 0
  then show ?case by (simp add: timestampIn_def split: option.splits)
next
  case (Suc h)
  show ?case
  proof (cases "timestamp a")
    case None
    then show ?thesis by (simp add: timestampIn_def)
  next
    case (Some t)
    with Suc show ?thesis
      by (auto simp: timestampIn_def hourMs_def algebra_simps)
  qed
qed

lemma clock_hours_window:
  "(\<Sum>i<h. length (filter (timestampIn (S - int i * hourMs) (S - int i * hourMs + hourMs)) as)) =
     length (filter (timestampIn (S + hourMs - int h * hourMs) (S + hourMs)) as)"
proof (induction as)
  case Nil
  then show ?case by simp
next
  case (Cons a as)
  have "(\<Sum>i<h. length (filter (timestampIn (S - int i * hourMs) (S - int i * hourMs + hourMs)) (a # as))) =
        (\<Sum>i<h. (if timestampIn (S - int i * hourMs) (S - int i * hourMs + hourMs) a then 1 else 0 :: nat) +
                 length (filter (timestampIn (S - int i * hourMs) (S - int i * hourMs + hourMs)) as))"
    by (intro sum.cong refl) simp
  then show ?case using Cons
    by (simp add: sum.distrib one_clock_hour)
qed

lemma steady_sum_window:
  assumes "steadyZone z tz now"
  shows "sum_list (map tp_count (createHourlyTrend z now as 6)) =
     length (filter (timestampIn (startOfHour tz now - 5 * hourMs) (startOfHour tz now + hourMs)) as)"
proof -
  have "(\<Sum>i<6. length (filter (inHour z now i) as)) =
        (\<Sum>i<6. length (filter (timestampIn (startOfHour tz now - int i * hourMs)
                                   (startOfHour tz now - int i * hourMs + hourMs)) as))"
    by (intro sum.cong refl) (simp add: steady_inHour[OF assms])
  then show ?thesis
    using clock_hours_window[where h = 6 and S = "startOfHour tz now" and as = as]
    by (simp add: sum_counts_upt hourMs_def)
qed

lemma steady_counts:
  assumes "steadyZone z tz now"
  shows "map tp_count (createHourlyTrend z now as 6) =
     map (\<lambda>i. length (filter (timestampIn (startOfHour tz now - int i * hourMs)
                                 (startOfHour tz now - int i * hourMs + hourMs)) as))
       [5, 4, 3, 2, 1, 0]"
  by (simp add: createHourlyTrend_def rev_upt_6 trendBucket_count
      steady_hourStart[OF assms] steady_hourEnd[OF assms])

lemma example_counts:
  assumes st: "steadyZone z tz now"
    and "timestamp a1 = Some (now - 30 * 60 * 1000)" "timestamp a2 = Some (now - 90 * 60 * 1000)"
  shows "map tp_count (createHourlyTrend z now [a1, a2] 6) = [0, 0, 0, 0, 1, 1] \<or>
         map tp_count (createHourlyTrend z now [a1, a2] 6) = [0, 0, 0, 1, 1, 0]"
proof -
  define r where "r = (now + tz) mod 3600000"
  have r: "0 \<le> r" "r < 3600000" by (simp_all add: r_def)
  show ?thesis
  proof (cases "1800000 \<le> r")
    case True
    then show ?thesis using r assms(2,3)
      by (simp add: steady_counts[OF st] timestampIn_def startOfHour_def hourMs_def r_def[symmetric])
  next
    case False
    then show ?thesis using r assms(2,3)
      by (simp add: steady_counts[OF st] timestampIn_def startOfHour_def hourMs_def r_def[symmetric])
  qed
qed

lemma count_filter_map:
  "length (filter (\<lambda>p. P (tp_count p)) xs) = length (filter P (map tp_count xs))"
  by (induction xs) auto

lemmas date_defs =
  createHourlyTrend_def rev_upt_6 trendBucket_def Let_def inHour_def hourStart_def hourEnd_def
  setHours4_def setHours1_def getHours_def localTime_def toUTC_def dayOf_def makeDate_def
  makeTime_def hourFromTime_def minFromTime_def secFromTime_def msFromTime_def hourMs_def
  msPerDay_def fixedZone_def newYork_def alertAt_def timestampIn_def

text \<open>
  C2 (as the code has it). For any alert history, \<open>createHourlyTrend\<close> with 6 hours yields
  exactly 6 buckets, oldest first; bucket \<open>k\<close> is the one of loop index \<open>5 - k\<close>, runs from
  its \<open>hourStart\<close> to its \<open>hourEnd\<close> on the wall clock, and counts the alerts whose
  timestamp parses and lies in it. Where the zone's offset does not change from six hours
  before now to one hour after, the buckets are the clock hours: bucket \<open>k\<close> starts at the
  start of the current wall-clock hour minus \<open>5 - k\<close> hours and lasts one hour, so together
  they cover from 5 hours before the start of the current hour up to the end of the
  current hour; alerts outside that span are in no bucket; and for two alerts 30 and 90
  minutes before now the counts sum to 2 with exactly 2 non-empty and 4 empty buckets.
\<close>

theorem createHourlyTrend_clock_hours:
  "length (createHourlyTrend z now as 6) = 6 \<and>
   (\<forall>k<6. tp_time (createHourlyTrend z now as 6 ! k) = hourStart z now (5 - k) \<and>
           tp_count (createHourlyTrend z now as 6 ! k) =
             length (filter (timestampIn (hourStart z now (5 - k)) (hourEnd z now (5 - k))) as)) \<and>
   (steadyZone z tz now \<longrightarrow>
      startOfHour tz now \<le> now \<and> now < startOfHour tz now + hourMs \<and>
      (startOfHour tz now + tz) mod hourMs = 0 \<and>
      (\<forall>k<6. tp_time (createHourlyTrend z now as 6 ! k) =
                startOfHour tz now - 5 * hourMs + int k * hourMs \<and>
              tp_count (createHourlyTrend z now as 6 ! k) =
                length (filter (timestampIn (startOfHour tz now - 5 * hourMs + int k * hourMs)
                                  (startOfHour tz now - 5 * hourMs + int k * hourMs + hourMs)) as)) \<and>
      sum_list (map tp_count (createHourlyTrend z now as 6)) =
        length (filter (timestampIn (startOfHour tz now - 5 * hourMs) (startOfHour tz now + hourMs)) as) \<and>
      (let ex = createHourlyTrend z now
                  [alertAt (Some (now - 30 * 60 * 1000)), alertAt (Some (now - 90 * 60 * 1000))] 6
       in sum_list (map tp_count ex) = 2 \<and>
          length (filter (\<lambda>p. tp_count p \<noteq> 0) ex) = 2 \<and>
          length (filter (\<lambda>p. tp_count p = 0) ex) = 4))"
proof -
  have general: "\<forall>k<6. tp_time (createHourlyTrend z now as 6 ! k) = hourStart z now (5 - k) \<and>
           tp_count (createHourlyTrend z now as 6 ! k) =
             length (filter (timestampIn (hourStart z now (5 - k)) (hourEnd z now (5 - k))) as)"
    by (simp add: createHourlyTrend_nth trendBucket_count trendBucket_time)
  have steady: "startOfHour tz now \<le> now \<and> now < startOfHour tz now + hourMs \<and>
      (startOfHour tz now + tz) mod hourMs = 0 \<and>
      (\<forall>k<6. tp_time (createHourlyTrend z now as 6 ! k) =
                startOfHour tz now - 5 * hourMs + int k * hourMs \<and>
              tp_count (createHourlyTrend z now as 6 ! k) =
                length (filter (timestampIn (startOfHour tz now - 5 * hourMs + int k * hourMs)
                                  (startOfHour tz now - 5 * hourMs + int k * hourMs + hourMs)) as)) \<and>
      sum_list (map tp_count (createHourlyTrend z now as 6)) =
        length (filter (timestampIn (startOfHour tz now - 5 * hourMs) (startOfHour tz now + hourMs)) as) \<and>
      (let ex = createHourlyTrend z now
                  [alertAt (Some (now - 30 * 60 * 1000)), alertAt (Some (now - 90 * 60 * 1000))] 6
       in sum_list (map tp_count ex) = 2 \<and>
          length (filter (\<lambda>p. tp_count p \<noteq> 0) ex) = 2 \<and>
          length (filter (\<lambda>p. tp_count p = 0) ex) = 4)"
    if st: "steadyZone z tz now"
  proof -
    have buckets: "\<forall>k<6. tp_time (createHourlyTrend z now as 6 ! k) =
                startOfHour tz now - 5 * hourMs + int k * hourMs \<and>
              tp_count (createHourlyTrend z now as 6 ! k) =
                length (filter (timestampIn (startOfHour tz now - 5 * hourMs + int k * hourMs)
                                  (startOfHour tz now - 5 * hourMs + int k * hourMs + hourMs)) as)"
    proof (intro allI impI)
      fix k :: nat
      assume k: "k < 6"
      then have lt: "5 - k < 6" by simp
      have idx: "startOfHour tz now - int (5 - k) * hourMs =
                 startOfHour tz now - 5 * hourMs + int k * hourMs"
        using k by (simp add: of_nat_diff algebra_simps)
      have n: "createHourlyTrend z now as 6 ! k = trendBucket z now as (5 - k)"
        using k by (simp add: createHourlyTrend_nth)
      have hs: "hourStart z now (5 - k) = startOfHour tz now - 5 * hourMs + int k * hourMs"
        using steady_hourStart[OF st lt] idx by (rule trans)
      have he: "hourEnd z now (5 - k) = startOfHour tz now - 5 * hourMs + int k * hourMs + hourMs"
        using steady_hourEnd[OF st lt] by (simp only: idx)
      show "tp_time (createHourlyTrend z now as 6 ! k) =
                startOfHour tz now - 5 * hourMs + int k * hourMs \<and>
              tp_count (createHourlyTrend z now as 6 ! k) =
                length (filter (timestampIn (startOfHour tz now - 5 * hourMs + int k * hourMs)
                                  (startOfHour tz now - 5 * hourMs + int k * hourMs + hourMs)) as)"
        by (simp only: n trendBucket_time trendBucket_count hs he)
    qed
    define ex where "ex = createHourlyTrend z now
               [alertAt (Some (now - 30 * 60 * 1000)), alertAt (Some (now - 90 * 60 * 1000))] 6"
    have "map tp_count ex = [0, 0, 0, 0, 1, 1] \<or> map tp_count ex = [0, 0, 0, 1, 1, 0]"
      unfolding ex_def by (rule example_counts[OF st]) (simp_all add: alertAt_def)
    then have "sum_list (map tp_count ex) = 2 \<and>
         length (filter (\<lambda>p. tp_count p \<noteq> 0) ex) = 2 \<and>
         length (filter (\<lambda>p. tp_count p = 0) ex) = 4"
      unfolding count_filter_map[of "\<lambda>n. n \<noteq> 0"] count_filter_map[of "\<lambda>n. n = 0"]
      by auto
    then show ?thesis
      using buckets steady_sum_window[OF st, of as] startOfHour_bounds[where tz = tz and now = now]
      unfolding ex_def Let_def by blast
  qed
  have len: "length (createHourlyTrend z now as 6) = 6"
    by (rule createHourlyTrend_length)
  show ?thesis
  proof (rule conjI [OF len], rule conjI [OF general], rule impI)
    assume "steadyZone z tz now"
    then show "startOfHour tz now \<le> now \<and> now < startOfHour tz now + hourMs \<and>
      (startOfHour tz now + tz) mod hourMs = 0 \<and>
      (\<forall>k<6. tp_time (createHourlyTrend z now as 6 ! k) =
                startOfHour tz now - 5 * hourMs + int k * hourMs \<and>
              tp_count (createHourlyTrend z now as 6 ! k) =
                length (filter (timestampIn (startOfHour tz now - 5 * hourMs + int k * hourMs)
                                  (startOfHour tz now - 5 * hourMs + int k * hourMs + hourMs)) as)) \<and>
      sum_list (map tp_count (createHourlyTrend z now as 6)) =
        length (filter (timestampIn (startOfHour tz now - 5 * hourMs) (startOfHour tz now + hourMs)) as) \<and>
      (let ex = createHourlyTrend z now
                  [alertAt (Some (now - 30 * 60 * 1000)), alertAt (Some (now - 90 * 60 * 1000))] 6
       in sum_list (map tp_count ex) = 2 \<and>
          length (filter (\<lambda>p. tp_count p \<noteq> 0) ex) = 2 \<and>
          length (filter (\<lambda>p. tp_count p = 0) ex) = 4)"
      by (rule steady)
  qed
qed

theorem createHourlyTrend_clock_hours_witness:
  "steadyZone (fixedZone 19800000) 19800000 38400000 \<and>
   startOfHour 19800000 38400000 = 37800000 \<and>
   tp_time (createHourlyTrend (fixedZone 19800000) 38400000 [alertAt (Some 37900000)] 6 ! 5) = 37800000 \<and>
   tp_count (createHourlyTrend (fixedZone 19800000) 38400000 [alertAt (Some 37900000)] 6 ! 5) = 1 \<and>
   hourStart (fixedZone 19800000) 38400000 0 = 37800000"
proof -
  have st: "steadyZone (fixedZone 19800000) 19800000 38400000"
    by (simp add: steadyZone_def fixedZone_def)
  have five: "(5::nat) < 6" by simp
  have s: "startOfHour 19800000 38400000 = 37800000"
    by (simp add: startOfHour_def hourMs_def)
  note inst = createHourlyTrend_clock_hours
    [of "fixedZone 19800000" 38400000 "[alertAt (Some 37900000)]" 19800000]
  note steady = inst [THEN conjunct2, THEN conjunct2, rule_format, OF st]
  note bucket = steady [THEN conjunct2, THEN conjunct2, THEN conjunct2, THEN conjunct1, rule_format, OF five]
  note general = inst [THEN conjunct2, THEN conjunct1, rule_format, OF five]
  from bucket general show ?thesis
    using st s by (simp add: hourMs_def timestampIn_def alertAt_def)
qed

text \<open>
  C2 as stated fails. At 10:30 UTC in a zone without offset an alert at 04:45 lies in the
  trailing window \<open>[now - 6h, now)\<close>, yet every bucket is empty, the first bucket starting
  at 05:00; and an alert at 10:40, after now, is counted in the last bucket. In New York
  at 06:30 UTC on 2026-11-01, half an hour after the clocks went back, the current
  bucket runs from 05:00 to 07:00 UTC and holds both the alert of 30 and the alert of 90
  minutes ago: one non-empty bucket, not two.
\<close>

theorem createHourlyTrend_trailing_window_counterexample:
  "timestampIn (37800000 - 6 * hourMs) 37800000 (alertAt (Some 17100000)) \<and>
   map tp_count (createHourlyTrend (fixedZone 0) 37800000 [alertAt (Some 17100000)] 6) = [0, 0, 0, 0, 0, 0] \<and>
   map tp_time (createHourlyTrend (fixedZone 0) 37800000 [alertAt (Some 17100000)] 6) =
     [18000000, 21600000, 25200000, 28800000, 32400000, 36000000] \<and>
   \<not> timestampIn (37800000 - 6 * hourMs) 37800000 (alertAt (Some 38400000)) \<and>
   map tp_count (createHourlyTrend (fixedZone 0) 37800000 [alertAt (Some 38400000)] 6) = [0, 0, 0, 0, 0, 1] \<and>
   map tp_count (createHourlyTrend newYork 1793514600000
      [alertAt (Some (1793514600000 - 30 * 60 * 1000)), alertAt (Some (1793514600000 - 90 * 60 * 1000))] 6) =
     [0, 0, 0, 0, 0, 2]"
  by (simp add: date_defs)

text \<open>
  C9. An alert whose timestamp cannot be parsed is not counted as "now": at 10:30 the
  trend of one such alert has the current bucket, and every other bucket, empty.
\<close>

theorem createHourlyTrend_invalid_timestamp_dropped:
  "map tp_count (createHourlyTrend (fixedZone 0) 37800000 [alertAt None] 6) = [0, 0, 0, 0, 0, 0] \<and>
   map tp_count (createHourlyTrend (fixedZone 0) 37800000 [alertAt (Some 37800000)] 6) = [0, 0, 0, 0, 0, 1]"
  by (simp add: date_defs)

section \<open>Properties of the detection context\<close>

lemma updateDetection_count:
  "detectionCount (updateDetection now d s) = detectionCount s + eventArrivals (Update now d)"
  by (cases d) (simp_all add: updateDetection_def Let_def)

lemma fireTimer_count: "detectionCount (fireTimer tm s) = detectionCount s"
  by (simp add: fireTimer_def clearIfCurrent_def)

lemma det_run_count:
  "detectionCount (det_run s es) = detectionCount s + sum_list (map eventArrivals es)"
proof (induction es arbitrary: s)
  case Nil
  then show ?case by (simp add: det_run_def)
next
  case (Cons e es)
  have "det_run s (e # es) = det_run (det_step s e) es"
    by (simp add: det_run_def)
  then show ?case
    using Cons[of "det_step s e"]
    by (cases e) (simp_all add: updateDetection_count fireTimer_count del: eventArrivals.simps(1,2))
qed

text \<open>
  C1 (as the code has it). Each \<open>updateDetection\<close> adds to \<open>detectionCount\<close> exactly the
  event's \<open>new_person_count\<close>, and 0 when that field is absent; the active count
  \<open>person_count\<close> has no influence. Over any sequence of updates and timer firings the
  total grows by the sum of the new arrivals of the updates.
\<close>

theorem detectionCount_new_arrivals:
  "detectionCount (updateDetection now (Some a) s) =
     detectionCount s + (case new_person_count a of None \<Rightarrow> 0 | Some n \<Rightarrow> n) \<and>
   detectionCount (updateDetection now (Some (a\<lparr>person_count := p\<rparr>)) s) =
     detectionCount (updateDetection now (Some a) s) \<and>
   detectionCount (det_run s es) = detectionCount s + sum_list (map eventArrivals es)"
  by (simp add: updateDetection_count det_run_count newArrivals_def js_or_def split: option.splits)

text \<open>
  C1 as stated fails. An event without any count field, reporting one person in its object
  list, leaves the total at 0; the claim makes it 1.
\<close>

theorem detectionCount_default_counterexample:
  "person_count personSeen = None \<and> new_person_count personSeen = None \<and>
   detectionCount initialDetection = 0 \<and>
   detectionCount (updateDetection 1000 (Some personSeen) initialDetection) = 0"
  by (simp add: updateDetection_def newArrivals_def Let_def js_or_def alertAt_def
      initialDetection_def personSeen_def)

lemma updateDetection_current:
  "currentDetection (updateDetection now (Some a) s) = Some (newDetection now a)"
  by (simp add: updateDetection_def Let_def)

lemma fireTimer_other:
  "currentDetection s = Some d \<Longrightarrow> det_id d \<noteq> snd tm \<Longrightarrow>
   currentDetection (fireTimer tm s) = Some d"
  by (simp add: fireTimer_def clearIfCurrent_def)

lemma stale_timers_keep:
  "currentDetection s = Some d \<Longrightarrow> \<forall>e\<in>set fs. \<exists>tm. e = Fire tm \<and> snd tm \<noteq> det_id d \<Longrightarrow>
   currentDetection (det_run s fs) = Some d"
proof (induction fs arbitrary: s)
  case Nil
  then show ?case by (simp add: det_run_def)
next
  case (Cons e fs)
  from Cons.prems(2) obtain tm where tm: "e = Fire tm" "snd tm \<noteq> det_id d" by auto
  have step: "currentDetection (det_step s e) = Some d"
    using Cons.prems(1) tm by (simp add: fireTimer_other)
  have "det_run s (e # fs) = det_run (det_step s e) fs"
    by (simp add: det_run_def)
  then show ?case using Cons.IH[OF step] Cons.prems(2) by simp
qed

text \<open>
  C3. The timer callback clears the current snapshot exactly when the snapshot has the
  timer's id, and leaves a snapshot with a different id in place. \<open>updateDetection\<close> at
  \<open>now\<close> makes the new snapshot (id and creation time \<open>now\<close>) current and schedules its timer
  for \<open>now + 10000\<close> ms; that timer clears it if it is still current. After any earlier
  events, a snapshot made current stays current however many timers of other ids fire
  afterwards.
\<close>

theorem snapshot_cleared_by_own_timer_only:
  "(currentDetection s = Some d \<and> det_id d \<noteq> i \<longrightarrow>
      currentDetection (clearIfCurrent i s) = Some d) \<and>
   (currentDetection s = Some d \<and> det_id d = i \<longrightarrow>
      currentDetection (clearIfCurrent i s) = None) \<and>
   currentDetection (updateDetection now (Some a) s) = Some (newDetection now a) \<and>
   det_id (newDetection now a) = now \<and>
   det_timestamp (newDetection now a) = now \<and>
   (now + 10000, now) \<in> set (timers (updateDetection now (Some a) s)) \<and>
   currentDetection (fireTimer (now + 10000, now) (updateDetection now (Some a) s)) = None \<and>
   ((\<forall>e\<in>set fs. \<exists>tm. e = Fire tm \<and> snd tm \<noteq> now) \<longrightarrow>
      currentDetection (det_run s (es @ Update now (Some a) # fs)) = Some (newDetection now a))"
proof -
  have trace: "currentDetection (det_run s (es @ Update now (Some a) # fs)) = Some (newDetection now a)"
    if "\<forall>e\<in>set fs. \<exists>tm. e = Fire tm \<and> snd tm \<noteq> now"
  proof -
    have "det_run s (es @ Update now (Some a) # fs) =
          det_run (updateDetection now (Some a) (det_run s es)) fs"
      by (simp add: det_run_def)
    moreover have "currentDetection (det_run (updateDetection now (Some a) (det_run s es)) fs) =
          Some (newDetection now a)"
      by (rule stale_timers_keep) (use that in \<open>simp_all add: updateDetection_current newDetection_def\<close>)
    ultimately show ?thesis by simp
  qed
  have own: "currentDetection (fireTimer (now + 10000, now) (updateDetection now (Some a) s)) = None"
    by (simp add: fireTimer_def clearIfCurrent_def updateDetection_def Let_def newDetection_def)
  show ?thesis
    using trace own
    by (simp add: clearIfCurrent_def updateDetection_def Let_def newDetection_def)
qed

theorem snapshot_cleared_by_own_timer_only_witness:
  "currentDetection (updateDetection 1000 (Some personSeen) initialDetection) =
     Some (newDetection 1000 personSeen) \<and>
   det_id (newDetection 1000 personSeen) \<noteq> 500 \<and>
   currentDetection (clearIfCurrent 500 (updateDetection 1000 (Some personSeen) initialDetection)) =
     Some (newDetection 1000 personSeen) \<and>
   currentDetection (clearIfCurrent 1000 (updateDetection 1000 (Some personSeen) initialDetection)) =
     None \<and>
   list_all (\<lambda>e. \<exists>tm. e = Fire tm \<and> snd tm \<noteq> 1000) [Fire (10500, 500)] \<and>
   currentDetection
     (det_run initialDetection
        ([Update 500 (Some personSeen)] @ Update 1000 (Some personSeen) # [Fire (10500, 500)])) =
     Some (newDetection 1000 personSeen)"
proof -
  have cur: "currentDetection (updateDetection 1000 (Some personSeen) initialDetection) =
     Some (newDetection 1000 personSeen)"
    by (simp add: updateDetection_def Let_def)
  have ids: "det_id (newDetection 1000 personSeen) \<noteq> 500" "det_id (newDetection 1000 personSeen) = 1000"
    by (simp_all add: newDetection_def)
  have stale: "\<forall>e\<in>set [Fire (10500, 500)]. \<exists>tm. e = Fire tm \<and> snd tm \<noteq> (1000::int)"
    by simp
  note own = snapshot_cleared_by_own_timer_only
    [where s = "updateDetection 1000 (Some personSeen) initialDetection"
       and d = "newDetection 1000 personSeen" and i = 1000 and now = 1000 and a = personSeen
       and fs = "[]" and es = "[]"]
  note other = snapshot_cleared_by_own_timer_only
    [where s = "updateDetection 1000 (Some personSeen) initialDetection"
       and d = "newDetection 1000 personSeen" and i = 500 and now = 1000 and a = personSeen
       and fs = "[]" and es = "[]"]
  note run = snapshot_cleared_by_own_timer_only
    [where s = initialDetection and d = "newDetection 1000 personSeen" and i = 500 and now = 1000
       and a = personSeen and fs = "[Fire (10500, 500)]" and es = "[Update 500 (Some personSeen)]"]
  from other cur ids have c1:
    "currentDetection (clearIfCurrent 500 (updateDetection 1000 (Some personSeen) initialDetection)) =
       Some (newDetection 1000 personSeen)"
    by blast
  from own cur ids have c2:
    "currentDetection (clearIfCurrent 1000 (updateDetection 1000 (Some personSeen) initialDetection)) =
       None"
    by blast
  from run stale have c3:
    "currentDetection
      (det_run initialDetection
        ([Update 500 (Some personSeen)] @ Update 1000 (Some personSeen) # [Fire (10500, 500)])) =
      Some (newDetection 1000 personSeen)"
    by blast
  have stale': "list_all (\<lambda>e. \<exists>tm. e = Fire tm \<and> snd tm \<noteq> (1000::int)) [Fire (10500, 500)]"
    by simp
  show ?thesis using cur ids(1) c1 c2 stale' c3 by blast
qed

text \<open>
  C4 (as the code has it). The person count of a snapshot is the active count
  \<open>person_count\<close> when that field is present, and 0 when it is absent: the new-arrivals
  field and the object list are no fallbacks for it, and there is no default 1. The new
  arrivals are read from \<open>new_person_count\<close> on its own, 0 when absent.
\<close>

theorem personCount_active_field_only:
  "personCount (newDetection now a) = (case person_count a of None \<Rightarrow> 0 | Some n \<Rightarrow> n) \<and>
   newPersonCount (newDetection now a) = (case new_person_count a of None \<Rightarrow> 0 | Some n \<Rightarrow> n) \<and>
   personCount (newDetection now (a\<lparr>new_person_count := q, detections := d\<rparr>)) =
     personCount (newDetection now a) \<and>
   map_option personCount (currentDetection (updateDetection now (Some a) s)) =
     Some (case person_count a of None \<Rightarrow> 0 | Some n \<Rightarrow> n)"
  by (simp add: updateDetection_def Let_def newDetection_def activePersonCount_def newArrivals_def
      js_or_def split: option.splits)

text \<open>
  C4 as stated fails. Without the active count, an event with two new arrivals gives the
  person count 0, not 2; an event with one \<open>person\<close> entry in its object list gives 0, not
  1; and an event without any of these gives 0, not the default 1.
\<close>

theorem personCount_fallback_counterexample:
  "person_count ((alertAt None)\<lparr>new_person_count := Some 2\<rparr>) = None \<and>
   map_option personCount
     (currentDetection (updateDetection 1000 (Some ((alertAt None)\<lparr>new_person_count := Some 2\<rparr>))
        initialDetection)) = Some 0 \<and>
   person_count personSeen = None \<and> new_person_count personSeen = None \<and>
   map_option personCount (currentDetection (updateDetection 1000 (Some personSeen) initialDetection)) =
     Some 0 \<and>
   map_option personCount (currentDetection (updateDetection 1000 (Some (alertAt None)) initialDetection)) =
     Some 0"
  by (simp add: updateDetection_def Let_def newDetection_def activePersonCount_def js_or_def
      alertAt_def personSeen_def)

section \<open>Properties of the dashboard\<close>


lemmas bootstrap_defs =
  bootstrap_def loadStream_def loadStats_def loadAlerts_def loadDetectionStatus_def
  processStream_def processStats_def showToast_def setDetectionStatus_def Let_def
  truthyStr_def strOr_def js_nullish_def mkToast_def

lemma bootstrap_stats_ok:
  "stats (bootstrap now rS (Inr sd) rA rD s0) = processStats sd"
  by (simp add: bootstrap_defs split: sum.splits prod.splits)

lemma bootstrap_stats_failed:
  "stats (bootstrap now rS (Inl e) rA rD s0) = \<lparr>st_total = 0, st_critical = 0, st_high = 0, st_blackout = 0\<rparr>"
  by (simp add: bootstrap_defs split: sum.splits prod.splits)

lemma bootstrap_alerts_ok:
  "alerts (bootstrap now rS rT (Inr as) rD s0) = (if as = [] then sampleAlerts now else as)"
  by (simp add: bootstrap_defs split: sum.splits prod.splits)

lemma bootstrap_alerts_failed:
  "alerts (bootstrap now rS rT (Inl e) rD s0) = sampleAlerts now"
  by (simp add: bootstrap_defs split: sum.splits prod.splits)

lemma bootstrap_stream_failed:
  "streamUrl (bootstrap now (Inl e) rT rA rD s0) = []"
  by (simp add: bootstrap_defs split: sum.splits prod.splits)

lemma bootstrap_loading:
  "loading (bootstrap now rS rT rA rD s0) = False"
  by (simp add: bootstrap_defs split: sum.splits prod.splits)

lemma scenario_toasts:
  "toasts (ctx (bootstrap now (Inl e) (Inr summary5100) (Inr []) (Inr running) initialDashboard)) =
     [mkToast ToastWarning VideoUnavailable 6000,
      if running then mkToast ToastSuccess DetectionActive 3000
      else mkToast ToastWarning DetectionNotRunning 5000]"
  by (simp add: bootstrap_defs initialDashboard_def initialDetection_def split: sum.splits prod.splits)

text \<open>
  C5 (as the code has it). When only the stream query fails, the summary is
  \<open>{total: 5, critical: 1, high: 0, blackout: 0}\<close> and the history is empty, the bootstrap
  ends with stats \<open>{5, 1, 0, 0}\<close>, no stream locator, exactly one video-unavailability
  warning and no alert-loading notification; the alert list holds the three sample
  alerts that stand in for an empty history. Each failed query is replaced by its own
  default whatever the other queries do: stats depend on the summary query only, the
  alert list on the history query only, and the loading flag is always cleared.
\<close>

theorem bootstrap_isolates_stream_failure:
  "stats (bootstrap now (Inl e) (Inr summary5100) (Inr []) (Inr running) initialDashboard) =
     \<lparr>st_total = 5, st_critical = 1, st_high = 0, st_blackout = 0\<rparr> \<and>
   alerts (bootstrap now (Inl e) (Inr summary5100) (Inr []) (Inr running) initialDashboard) =
     sampleAlerts now \<and>
   streamUrl (bootstrap now (Inl e) (Inr summary5100) (Inr []) (Inr running) initialDashboard) = [] \<and>
   toasts (ctx (bootstrap now (Inl e) (Inr summary5100) (Inr []) (Inr running) initialDashboard)) =
     [mkToast ToastWarning VideoUnavailable 6000,
      if running then mkToast ToastSuccess DetectionActive 3000
      else mkToast ToastWarning DetectionNotRunning 5000] \<and>
   length (filter (\<lambda>t. toast_message t = VideoUnavailable)
     (toasts (ctx (bootstrap now (Inl e) (Inr summary5100) (Inr []) (Inr running) initialDashboard)))) = 1 \<and>
   filter (\<lambda>t. toast_message t = AlertsUnavailable)
     (toasts (ctx (bootstrap now (Inl e) (Inr summary5100) (Inr []) (Inr running) initialDashboard))) = [] \<and>
   stats (bootstrap now rS (Inr sd) rA rD s0) = processStats sd \<and>
   stats (bootstrap now rS (Inl e) rA rD s0) =
     \<lparr>st_total = 0, st_critical = 0, st_high = 0, st_blackout = 0\<rparr> \<and>
   alerts (bootstrap now rS rT (Inr as) rD s0) = (if as = [] then sampleAlerts now else as) \<and>
   alerts (bootstrap now rS rT (Inl e) rD s0) = sampleAlerts now \<and>
   streamUrl (bootstrap now (Inl e) rT rA rD s0) = [] \<and>
   loading (bootstrap now rS rT rA rD s0) = False"
  unfolding scenario_toasts
  by (simp add: bootstrap_stats_ok bootstrap_stats_failed bootstrap_alerts_ok bootstrap_alerts_failed
      bootstrap_stream_failed bootstrap_loading)
     (simp add: processStats_def summary5100_def js_nullish_def mkToast_def)

text \<open>
  C5 as stated fails. In that scenario the alert list is not empty after bootstrap: it
  has the three sample alerts.
\<close>

theorem bootstrap_empty_history_counterexample:
  "length (alerts (bootstrap 1000000 (Inl NetworkError) (Inr summary5100) (Inr []) (Inr True) initialDashboard)) = 3"
  by (simp add: bootstrap_alerts_ok sampleAlerts_def)

lemma handleFrame_keepalive:
  "msg_type a = Some ''keepalive'' \<Longrightarrow> handleFrame now (JsonObject a) s = s"
  by (simp add: handleFrame_def)

lemma handleFrames_Cons:
  "handleFrames s ((now, f) # fs) = handleFrames (handleFrame now f s) fs"
  by (simp add: handleFrames_def)

lemma handleFrames_skip_keepalive:
  "handleFrames s fs = handleFrames s (filter (\<lambda>(now, f). \<not> isKeepalive f) fs)"
proof (induction fs arbitrary: s)
  case Nil
  then show ?case by simp
next
  case (Cons x fs)
  obtain now f where x: "x = (now, f)" by (cases x)
  show ?case
  proof (cases "isKeepalive f")
    case True
    then have "handleFrame now f s = s"
      by (auto simp: isKeepalive_def handleFrame_def split: frame.splits)
    then show ?thesis using Cons[of s] True x by (simp add: handleFrames_Cons)
  next
    case False
    then show ?thesis using Cons[of "handleFrame now f s"] x by (simp add: handleFrames_Cons)
  qed
qed

lemma onMessage_alerts: "alerts (onMessage now msg s) = take 50 (msg # alerts s)"
  by (simp add: onMessage_def alertNotice_def showToast_def Let_def)

lemma onMessage_total: "st_total (stats (onMessage now msg s)) = st_total (stats s) + 1"
  by (simp add: onMessage_def alertNotice_def showToast_def Let_def js_or_def)

lemma onError_alerts: "alerts (onError e s) = alerts s" "stats (onError e s) = stats s"
  by (simp_all add: onError_def showToast_def)

lemma handleFrame_no_keepalive_in_history:
  "\<forall>a\<in>set (alerts s). msg_type a \<noteq> Some ''keepalive'' \<Longrightarrow>
   \<forall>a\<in>set (alerts (handleFrame now f s)). msg_type a \<noteq> Some ''keepalive''"
  by (cases f) (auto simp: handleFrame_def onError_alerts onMessage_alerts dest: in_set_takeD)

lemma handleFrames_no_keepalive_in_history:
  "\<forall>a\<in>set (alerts s). msg_type a \<noteq> Some ''keepalive'' \<Longrightarrow>
   \<forall>a\<in>set (alerts (handleFrames s fs)). msg_type a \<noteq> Some ''keepalive''"
proof (induction fs arbitrary: s)
  case Nil
  then show ?case by (simp add: handleFrames_def)
next
  case (Cons x fs)
  obtain now f where x: "x = (now, f)" by (cases x)
  show ?case
    unfolding x handleFrames_Cons
    by (rule Cons.IH) (rule handleFrame_no_keepalive_in_history, rule Cons.prems)
qed

text \<open>
  C6. A keepalive frame leaves the whole dashboard state unchanged, so neither the total
  nor the history changes. Every other object frame goes to \<open>onMessage\<close>: it is put at the
  head of the history and the total grows by 1. Dropping the keepalive frames from any
  frame sequence gives the same final state, and no keepalive frame ever enters a history
  that had none.
\<close>

theorem keepalive_discarded:
  "(msg_type a = Some ''keepalive'' \<longrightarrow> handleFrame now (JsonObject a) s = s) \<and>
   (msg_type a \<noteq> Some ''keepalive'' \<longrightarrow>
      handleFrame now (JsonObject a) s = onMessage now a s \<and>
      alerts (handleFrame now (JsonObject a) s) = take 50 (a # alerts s) \<and>
      st_total (stats (handleFrame now (JsonObject a) s)) = st_total (stats s) + 1) \<and>
   handleFrames s fs = handleFrames s (filter (\<lambda>(now, f). \<not> isKeepalive f) fs) \<and>
   ((\<forall>b\<in>set (alerts s). msg_type b \<noteq> Some ''keepalive'') \<longrightarrow>
      (\<forall>b\<in>set (alerts (handleFrames s fs)). msg_type b \<noteq> Some ''keepalive''))"
  using handleFrames_skip_keepalive[of s fs] handleFrames_no_keepalive_in_history[of s fs]
  by (simp add: handleFrame_def onMessage_alerts onMessage_total)

theorem keepalive_discarded_witness:
  "msg_type keepaliveMsg = Some ''keepalive'' \<and>
   handleFrame 1 (JsonObject keepaliveMsg) initialDashboard = initialDashboard \<and>
   msg_type personSeen \<noteq> Some ''keepalive'' \<and>
   alerts (handleFrame 2 (JsonObject personSeen) initialDashboard) = [personSeen] \<and>
   st_total (stats (handleFrame 2 (JsonObject personSeen) initialDashboard)) = 1 \<and>
   list_all (\<lambda>b. msg_type b \<noteq> Some ''keepalive'') (alerts initialDashboard) \<and>
   list_all (\<lambda>b. msg_type b \<noteq> Some ''keepalive'')
     (alerts (handleFrames initialDashboard
        [(1, JsonObject keepaliveMsg), (2, JsonObject personSeen)]))"
proof -
  have k: "msg_type keepaliveMsg = Some ''keepalive''"
    by (simp add: keepaliveMsg_def)
  have p: "msg_type personSeen \<noteq> Some ''keepalive''"
    by (simp add: personSeen_def alertAt_def)
  have h: "\<forall>b\<in>set (alerts initialDashboard). msg_type b \<noteq> Some ''keepalive''"
    by (simp add: initialDashboard_def)
  note ka = keepalive_discarded
    [where a = keepaliveMsg and now = 1 and s = initialDashboard
       and fs = "[(1, JsonObject keepaliveMsg), (2, JsonObject personSeen)]"]
  note ps = keepalive_discarded
    [where a = personSeen and now = 2 and s = initialDashboard and fs = "[]"]
  from ka k have c1: "handleFrame 1 (JsonObject keepaliveMsg) initialDashboard = initialDashboard"
    by blast
  from ps p have c2:
    "alerts (handleFrame 2 (JsonObject personSeen) initialDashboard) = take 50 (personSeen # alerts initialDashboard)"
    "st_total (stats (handleFrame 2 (JsonObject personSeen) initialDashboard)) =
       st_total (stats initialDashboard) + 1"
    by blast+
  from ka h have c3:
    "\<forall>b\<in>set (alerts (handleFrames initialDashboard
        [(1, JsonObject keepaliveMsg), (2, JsonObject personSeen)])).
      msg_type b \<noteq> Some ''keepalive''"
    by blast
  show ?thesis
    using k p h c1 c2 c3 by (simp add: initialDashboard_def list_all_iff)
qed





section \<open>Properties of the video player\<close>






















end
